theory Spec2Isabelle
  imports Complex_Main
begin

section \<open>Violation logger: severity classification\<close>

text \<open>
  \<^verbatim>\<open>determineSeverity(type: string): 'low' | 'medium' | 'high'\<close> of the class
  \<^verbatim>\<open>ViolationLogger\<close>: a \<^verbatim>\<open>switch\<close> on the violation type with a default branch.
\<close>

datatype severity = Low | Medium | High

definition determineSeverity :: "string \<Rightarrow> severity" where
  "determineSeverity t =
     (if t = ''phone'' \<or> t = ''multiple_person'' then High
      else if t = ''object'' \<or> t = ''no_person'' then Medium
      else if t = ''looking_away'' \<or> t = ''audio_noise'' then Low
      else Low)"

text \<open>The order in which the three severities are compared: low, then medium, then high.\<close>

fun severity_rank :: "severity \<Rightarrow> nat" where
  "severity_rank Low = 0"
| "severity_rank Medium = 1"
| "severity_rank High = 2"

section \<open>Streaming client: the hook \<^verbatim>\<open>useProctoringWebSocket\<close>\<close>

text \<open>
  The hook keeps a browser \<^verbatim>\<open>WebSocket\<close> in \<^verbatim>\<open>wsRef\<close>, the React state \<^verbatim>\<open>isConnected\<close>
  and \<^verbatim>\<open>reconnectAttempts\<close>, and the handle of its last reconnect timer in
  \<^verbatim>\<open>reconnectTimeoutRef\<close>. Its callbacks are modelled as functions from the hook's state
  to its new state. JavaScript numbers that are only carried (calibration values,
  confidences) are reals; counters and delays are naturals.
\<close>

datatype ready_state = CONNECTING | OPEN | CLOSING | CLOSED

datatype js_error = InvalidStateError | SyntaxError | TypeError

datatype toast = ToastSuccess string | ToastError string

text \<open>The outbound payloads, one constructor per \<^verbatim>\<open>type\<close> tag, fields in the source's order.\<close>

datatype out_message =
    FrameMsg string real real string string string string string "nat option"
  | AudioMsg nat string string string string string
  | BrowserActivityMsg string string string string string string string
  | PingMsg

text \<open>
  A socket that the hook has created. \<open>seenAttempts\<close> is the value of
  \<^verbatim>\<open>reconnectAttempts\<close> in the closure of the \<^verbatim>\<open>connect\<close> call that created the socket:
  its \<^verbatim>\<open>onclose\<close> handler reads that value, not the current state. \<open>outbox\<close> is what has
  been handed to the network.
\<close>

record websocket =
  url :: string
  readyState :: ready_state
  seenAttempts :: nat
  outbox :: "out_message list"

text \<open>
  A timer set by \<^verbatim>\<open>setTimeout\<close>: the handle that \<^verbatim>\<open>setTimeout\<close> returns, its delay
  in milliseconds, and the counter in the closure of its callback.
\<close>

record timer =
  timerId :: nat
  delay :: nat
  timerAttempts :: nat

text \<open>
  The hook's state. Beside the two refs and the React state it holds what the browser
  keeps for the hook: \<open>detached\<close>, the sockets that the hook has created and that
  \<^verbatim>\<open>wsRef\<close> no longer holds (their handlers stay attached), \<open>timers\<close>, the timers that
  are pending, and \<open>nextTimerId\<close>, the next handle.
\<close>

record hook =
  wsRef :: "websocket option"
  detached :: "websocket list"
  reconnectTimeoutRef :: "nat option"
  timers :: "timer list"
  nextTimerId :: nat
  isConnected :: bool
  reconnectAttempts :: nat
  toasts :: "toast list"

text \<open>The hook's options (\<^verbatim>\<open>UseProctoringWebSocketOptions\<close>) without the callback.\<close>

record options =
  sessionId :: string
  examId :: string
  studentId :: string
  studentName :: string
  subjectCode :: string
  subjectName :: string
  calibratedPitch :: real
  calibratedYaw :: real
  enabled :: bool

definition maxReconnectAttempts :: nat where
  "maxReconnectAttempts = 50"

text \<open>
  \<^verbatim>\<open>WebSocket.send\<close> of the browser: it throws on a socket that is still connecting,
  transmits on an open one, and discards the data on a closing or closed one.
\<close>

definition ws_send :: "websocket \<Rightarrow> out_message \<Rightarrow> js_error + websocket" where
  "ws_send ws m =
     (case readyState ws of
        CONNECTING \<Rightarrow> Inl InvalidStateError
      | OPEN \<Rightarrow> Inr (ws\<lparr>outbox := outbox ws @ [m]\<rparr>)
      | CLOSING \<Rightarrow> Inr ws
      | CLOSED \<Rightarrow> Inr ws)"

text \<open>\<^verbatim>\<open>a || b\<close> on an optional string: the empty string and \<^verbatim>\<open>undefined\<close> are falsy.\<close>

definition js_or :: "string option \<Rightarrow> string \<Rightarrow> string" where
  "js_or a b = (case a of None \<Rightarrow> b | Some s \<Rightarrow> if s = [] then b else s)"

text \<open>
  The three senders. Each has its own guard
  \<^verbatim>\<open>if (wsRef.current?.readyState === WebSocket.OPEN)\<close>; the other branch only writes
  to the console. \<^verbatim>\<open>sendFrame\<close> takes the student name from its third argument when that
  is given and not empty.
\<close>

definition sendFrame ::
  "options \<Rightarrow> hook \<Rightarrow> string \<Rightarrow> nat option \<Rightarrow> string option \<Rightarrow> js_error + hook" where
  "sendFrame opts st frameBase64 audioLevel overrideStudentName =
     (let currentStudentName = js_or overrideStudentName (studentName opts)
      in case wsRef st of
           None \<Rightarrow> Inr st
         | Some ws \<Rightarrow>
             if readyState ws = OPEN
             then (case ws_send ws
                          (FrameMsg frameBase64 (calibratedPitch opts) (calibratedYaw opts)
                             (examId opts) (studentId opts) currentStudentName
                             (subjectCode opts) (subjectName opts) audioLevel) of
                     Inl e \<Rightarrow> Inl e
                   | Inr ws' \<Rightarrow> Inr (st\<lparr>wsRef := Some ws'\<rparr>))
             else Inr st)"

definition sendAudioLevel :: "options \<Rightarrow> hook \<Rightarrow> nat \<Rightarrow> js_error + hook" where
  "sendAudioLevel opts st level =
     (case wsRef st of
        None \<Rightarrow> Inr st
      | Some ws \<Rightarrow>
          if readyState ws = OPEN
          then (case ws_send ws
                       (AudioMsg level (examId opts) (studentId opts) (studentName opts)
                          (subjectCode opts) (subjectName opts)) of
                  Inl e \<Rightarrow> Inl e
                | Inr ws' \<Rightarrow> Inr (st\<lparr>wsRef := Some ws'\<rparr>))
          else Inr st)"

definition sendBrowserActivity ::
  "options \<Rightarrow> hook \<Rightarrow> string \<Rightarrow> string \<Rightarrow> js_error + hook" where
  "sendBrowserActivity opts st violationType message =
     (case wsRef st of
        None \<Rightarrow> Inr st
      | Some ws \<Rightarrow>
          if readyState ws = OPEN
          then (case ws_send ws
                       (BrowserActivityMsg violationType message (examId opts)
                          (studentId opts) (studentName opts) (subjectCode opts)
                          (subjectName opts)) of
                  Inl e \<Rightarrow> Inl e
                | Inr ws' \<Rightarrow> Inr (st\<lparr>wsRef := Some ws'\<rparr>))
          else Inr st)"

text \<open>
  The connection state of the specification, read off the hook: no socket, or a closed
  one, is \<open>Disconnected\<close>.
\<close>

datatype connection_state = Disconnected | Connecting | Open | Closing

definition connectionState :: "hook \<Rightarrow> connection_state" where
  "connectionState st =
     (case wsRef st of
        None \<Rightarrow> Disconnected
      | Some ws \<Rightarrow>
          (case readyState ws of
             CONNECTING \<Rightarrow> Connecting
           | OPEN \<Rightarrow> Open
           | CLOSING \<Rightarrow> Closing
           | CLOSED \<Rightarrow> Disconnected))"

text \<open>What the hook has transmitted so far on its current socket.\<close>

definition transmitted :: "hook \<Rightarrow> out_message list" where
  "transmitted st = (case wsRef st of None \<Rightarrow> [] | Some ws \<Rightarrow> outbox ws)"

subsection \<open>Connecting and reconnecting\<close>

text \<open>\<^verbatim>\<open>String.prototype.replace\<close> with a string pattern: the first occurrence only.\<close>

fun replace_first :: "string \<Rightarrow> string \<Rightarrow> string \<Rightarrow> string" where
  "replace_first pat rep [] = (if pat = [] then rep else [])"
| "replace_first pat rep (c # cs) =
     (if take (length pat) (c # cs) = pat then rep @ drop (length pat) (c # cs)
      else c # replace_first pat rep cs)"

text \<open>
  \<^verbatim>\<open>getWebSocketURL\<close>, from the two environment variables \<^verbatim>\<open>VITE_PROCTORING_WS_URL\<close>
  and \<^verbatim>\<open>VITE_PROCTORING_API_URL\<close>.
\<close>

definition getWebSocketURL :: "string option \<Rightarrow> string option \<Rightarrow> string" where
  "getWebSocketURL env_ws_url env_api_url =
     (case env_ws_url of
        Some u \<Rightarrow>
          if u \<noteq> [] then u
          else replace_first ''http://'' ''ws://''
                 (replace_first ''https://'' ''wss://''
                    (js_or env_api_url ''http://localhost:8001''))
      | None \<Rightarrow>
          replace_first ''http://'' ''ws://''
            (replace_first ''https://'' ''wss://''
               (js_or env_api_url ''http://localhost:8001'')))"

text \<open>
  \<^verbatim>\<open>connect\<close>. The argument \<open>k\<close> is the value of \<^verbatim>\<open>reconnectAttempts\<close> in the callback's
  closure (the callback is rebuilt when the counter changes, by its dependency list).
  \<open>accepts\<close> stands for the \<^verbatim>\<open>WebSocket\<close> constructor's check of the URL: when it
  throws, the \<^verbatim>\<open>catch\<close> branch only sets \<^verbatim>\<open>isConnected\<close> to false. The assignment to
  \<^verbatim>\<open>wsRef.current\<close> leaves the socket that was there, if any, detached.
\<close>

definition connect :: "(string \<Rightarrow> bool) \<Rightarrow> string \<Rightarrow> options \<Rightarrow> nat \<Rightarrow> hook \<Rightarrow> hook" where
  "connect accepts WS_URL opts k st =
     (if \<not> enabled opts \<or> sessionId opts = [] then st
      else let wsURL = WS_URL @ ''/api/ws/proctoring/'' @ sessionId opts
           in if accepts wsURL
              then st\<lparr>wsRef := Some \<lparr>url = wsURL, readyState = CONNECTING,
                                     seenAttempts = k, outbox = []\<rparr>,
                      detached := (case wsRef st of
                                     None \<Rightarrow> detached st
                                   | Some old \<Rightarrow> detached st @ [old])\<rparr>
              else st\<lparr>isConnected := False\<rparr>)"

definition onopen :: "hook \<Rightarrow> hook" where
  "onopen st =
     st\<lparr>isConnected := True, reconnectAttempts := 0,
        toasts := toasts st @ [ToastSuccess ''Real-time monitoring active'']\<rparr>"

definition onerror :: "hook \<Rightarrow> hook" where
  "onerror st = st\<lparr>isConnected := False\<rparr>"

text \<open>
  \<^verbatim>\<open>ws.onclose\<close>, for a socket whose closure holds the counter value \<open>k\<close>. The timer it
  sets is pending from then on, and its handle is stored in \<^verbatim>\<open>reconnectTimeoutRef\<close>.
\<close>

definition onclose :: "options \<Rightarrow> nat \<Rightarrow> hook \<Rightarrow> hook" where
  "onclose opts k st =
     (let st1 = st\<lparr>isConnected := False\<rparr>
      in if enabled opts \<and> k < maxReconnectAttempts
         then st1\<lparr>timers := timers st1 @
                      [\<lparr>timerId = nextTimerId st1, delay = min (1000 * 2 ^ k) 30000,
                        timerAttempts = k\<rparr>],
                  reconnectTimeoutRef := Some (nextTimerId st1),
                  nextTimerId := nextTimerId st1 + 1\<rparr>
         else if k \<ge> maxReconnectAttempts
         then st1\<lparr>toasts := toasts st1 @ [ToastError ''Unable to connect to proctoring service.'']\<rparr>
         else st1)"

text \<open>
  The timer's callback: \<^verbatim>\<open>setReconnectAttempts(prev => prev + 1); connect();\<close>. The
  \<^verbatim>\<open>connect\<close> it calls is the callback in whose closure the timer was set, so it
  connects with that closure's counter \<open>k\<close>.
\<close>

definition reconnect_callback ::
  "(string \<Rightarrow> bool) \<Rightarrow> string \<Rightarrow> options \<Rightarrow> nat \<Rightarrow> hook \<Rightarrow> hook" where
  "reconnect_callback accepts WS_URL opts k st =
     connect accepts WS_URL opts k (st\<lparr>reconnectAttempts := reconnectAttempts st + 1\<rparr>)"

text \<open>
  \<^verbatim>\<open>WebSocket.close\<close> of the browser: a socket that is connecting or open starts to
  close; its close event comes later. \<^verbatim>\<open>clearTimeout\<close>: the timer of that handle, if it
  is pending, is dropped.
\<close>

definition ws_close :: "websocket \<Rightarrow> websocket" where
  "ws_close ws =
     (if readyState ws = CONNECTING \<or> readyState ws = OPEN then ws\<lparr>readyState := CLOSING\<rparr>
      else ws)"

definition clearTimeout :: "nat \<Rightarrow> timer list \<Rightarrow> timer list" where
  "clearTimeout h ts = filter (\<lambda>t. timerId t \<noteq> h) ts"

text \<open>
  \<^verbatim>\<open>disconnect\<close>: clears the timer whose handle the ref holds, closes the socket in
  \<^verbatim>\<open>wsRef\<close> and forgets it. The socket keeps its handlers.
\<close>

definition disconnect :: "hook \<Rightarrow> hook" where
  "disconnect st =
     (let st1 = (case reconnectTimeoutRef st of
                   None \<Rightarrow> st
                 | Some h \<Rightarrow> st\<lparr>timers := clearTimeout h (timers st)\<rparr>);
          st2 = (case wsRef st1 of
                   None \<Rightarrow> st1
                 | Some ws \<Rightarrow> st1\<lparr>detached := detached st1 @ [ws_close ws], wsRef := None\<rparr>)
      in st2\<lparr>isConnected := False\<rparr>)"

text \<open>
  The effect \<^verbatim>\<open>useEffect(..., [enabled, sessionId, connect, disconnect])\<close>: it connects
  with the current callback, and its cleanup disconnects. React runs the cleanup and then
  the effect again whenever \<^verbatim>\<open>connect\<close> has been rebuilt, that is, with the options
  fixed, whenever the counter has changed.
\<close>

definition connect_effect :: "(string \<Rightarrow> bool) \<Rightarrow> string \<Rightarrow> options \<Rightarrow> hook \<Rightarrow> hook" where
  "connect_effect accepts WS_URL opts st =
     (if enabled opts \<and> sessionId opts \<noteq> []
      then connect accepts WS_URL opts (reconnectAttempts st) st
      else st)"

definition effect_rerun :: "(string \<Rightarrow> bool) \<Rightarrow> string \<Rightarrow> options \<Rightarrow> hook \<Rightarrow> hook" where
  "effect_rerun accepts WS_URL opts st = connect_effect accepts WS_URL opts (disconnect st)"

text \<open>The hook's state at its first render, and after the effect has run once.\<close>

definition initial_hook :: hook where
  "initial_hook =
     \<lparr>wsRef = None, detached = [], reconnectTimeoutRef = None, timers = [], nextTimerId = 1,
      isConnected = False, reconnectAttempts = 0, toasts = []\<rparr>"

definition mounted_hook :: "(string \<Rightarrow> bool) \<Rightarrow> string \<Rightarrow> options \<Rightarrow> hook" where
  "mounted_hook accepts WS_URL opts = connect_effect accepts WS_URL opts initial_hook"

text \<open>
  The browser's events, each with the handler it runs: the socket in \<^verbatim>\<open>wsRef\<close> or the
  \<open>i\<close>-th detached socket opens or closes, or the pending timer of handle \<open>h\<close> fires. An
  event that cannot occur in the state (no such socket or timer, or a socket already
  closed) changes nothing.
\<close>

datatype hook_event =
    CurrentOpened
  | CurrentClosed
  | DetachedOpened nat
  | DetachedClosed nat
  | TimerFired nat

definition handle :: "(string \<Rightarrow> bool) \<Rightarrow> string \<Rightarrow> options \<Rightarrow> hook_event \<Rightarrow> hook \<Rightarrow> hook" where
  "handle accepts WS_URL opts ev st =
     (case ev of
        CurrentOpened \<Rightarrow>
          (case wsRef st of
             None \<Rightarrow> st
           | Some ws \<Rightarrow>
               if readyState ws = CONNECTING
               then onopen (st\<lparr>wsRef := Some (ws\<lparr>readyState := OPEN\<rparr>)\<rparr>)
               else st)
      | CurrentClosed \<Rightarrow>
          (case wsRef st of
             None \<Rightarrow> st
           | Some ws \<Rightarrow>
               if readyState ws \<noteq> CLOSED
               then onclose opts (seenAttempts ws)
                      (st\<lparr>wsRef := Some (ws\<lparr>readyState := CLOSED\<rparr>)\<rparr>)
               else st)
      | DetachedOpened i \<Rightarrow>
          if i < length (detached st) \<and> readyState (detached st ! i) = CONNECTING
          then onopen (st\<lparr>detached := (detached st)[i := (detached st ! i)\<lparr>readyState := OPEN\<rparr>]\<rparr>)
          else st
      | DetachedClosed i \<Rightarrow>
          if i < length (detached st) \<and> readyState (detached st ! i) \<noteq> CLOSED
          then onclose opts (seenAttempts (detached st ! i))
                 (st\<lparr>detached := (detached st)[i := (detached st ! i)\<lparr>readyState := CLOSED\<rparr>]\<rparr>)
          else st
      | TimerFired h \<Rightarrow>
          (case find (\<lambda>t. timerId t = h) (timers st) of
             None \<Rightarrow> st
           | Some t \<Rightarrow>
               reconnect_callback accepts WS_URL opts (timerAttempts t)
                 (st\<lparr>timers := clearTimeout h (timers st)\<rparr>)))"

text \<open>
  One turn of the event loop: the handler runs, React renders, and the effect runs again
  when the handler has changed the counter.
\<close>

definition step :: "(string \<Rightarrow> bool) \<Rightarrow> string \<Rightarrow> options \<Rightarrow> hook_event \<Rightarrow> hook \<Rightarrow> hook" where
  "step accepts WS_URL opts ev st =
     (let st1 = handle accepts WS_URL opts ev st
      in if reconnectAttempts st1 \<noteq> reconnectAttempts st
         then effect_rerun accepts WS_URL opts st1
         else st1)"

text \<open>
  A round of reconnecting while the service stays unreachable, as a sequence of three
  turns of the event loop: the socket that the last cleanup has closed delivers its
  close event, the socket in \<^verbatim>\<open>wsRef\<close> closes unexpectedly, and then the timer that the
  first of the two has set fires. \<open>storm n\<close> runs \<open>n\<close> such rounds and returns the delays
  of the timers that fired, in order, and the final state.
\<close>

fun storm ::
  "(string \<Rightarrow> bool) \<Rightarrow> string \<Rightarrow> options \<Rightarrow> nat \<Rightarrow> hook \<Rightarrow> nat list \<times> hook" where
  "storm accepts WS_URL opts 0 st = ([], st)"
| "storm accepts WS_URL opts (Suc n) st =
     (let h = nextTimerId st;
          st1 = step accepts WS_URL opts (DetachedClosed (length (detached st) - 1)) st;
          st2 = step accepts WS_URL opts CurrentClosed st1
      in case find (\<lambda>t. timerId t = h) (timers st2) of
           None \<Rightarrow> ([], st2)
         | Some t \<Rightarrow>
             (let r = storm accepts WS_URL opts n (step accepts WS_URL opts (TimerFired h) st2)
              in (delay t # fst r, snd r)))"

text \<open>
  The first round: the socket of the mounted hook closes unexpectedly and the timer
  that its handler has set, the first timer of the page, fires.
\<close>

definition first_reconnect :: "(string \<Rightarrow> bool) \<Rightarrow> string \<Rightarrow> options \<Rightarrow> hook" where
  "first_reconnect accepts WS_URL opts =
     step accepts WS_URL opts (TimerFired 1)
       (step accepts WS_URL opts CurrentClosed (mounted_hook accepts WS_URL opts))"

subsection \<open>Inbound messages\<close>

text \<open>
  \<^verbatim>\<open>ViolationData\<close> of the hook: what the detection service sends for one violation and
  what the registered handler receives.
\<close>

record violation_data =
  v_type :: string
  v_severity :: string
  v_message :: string
  v_confidence :: "real option"
  v_timestamp :: string
  v_snapshot_base64 :: "string option"

text \<open>
  Of a \<^verbatim>\<open>DetectionResult\<close> the handler reads the list of violations, which it checks
  for presence, and the snapshot of the frame.
\<close>

record detection_result =
  violations :: "violation_data list option"
  snapshot_base64 :: "string option"

text \<open>
  A parsed inbound message, by its \<^verbatim>\<open>type\<close> tag; \<^verbatim>\<open>data.data\<close> of a detection result
  may be absent, that of a \<^verbatim>\<open>violation\<close> message is a violation. An event whose text
  \<^verbatim>\<open>JSON.parse\<close> rejects is \<open>None\<close>.
\<close>

datatype inbound =
    DetectionResultMsg "detection_result option"
  | ViolationMsg violation_data
  | AudioLevelMsg
  | PongMsg
  | UnknownMsg string

text \<open>
  \<^verbatim>\<open>ws.onmessage\<close>: the calls it makes to \<^verbatim>\<open>onViolationRef.current\<close>, in order. \<open>clock i\<close>
  is what \<^verbatim>\<open>new Date().toISOString()\<close> returns in the \<open>i\<close>-th callback of
  \<^verbatim>\<open>forEach\<close>. Every exception is caught by the handler's \<^verbatim>\<open>try\<close>, after which
  nothing more is delivered.
\<close>

definition onmessage :: "(nat \<Rightarrow> string) \<Rightarrow> inbound option \<Rightarrow> violation_data list" where
  "onmessage clock ev =
     (case ev of
        None \<Rightarrow> []
      | Some (DetectionResultMsg None) \<Rightarrow> []
      | Some (DetectionResultMsg (Some result)) \<Rightarrow>
          (case violations result of
             None \<Rightarrow> []
           | Some vs \<Rightarrow>
               if length vs > 0
               then map (\<lambda>(i, violation).
                          violation\<lparr>v_timestamp := clock i,
                                    v_snapshot_base64 := snapshot_base64 result\<rparr>)
                      (enumerate 0 vs)
               else [])
      | Some (ViolationMsg v) \<Rightarrow> [v]
      | Some AudioLevelMsg \<Rightarrow> []
      | Some PongMsg \<Rightarrow> []
      | Some (UnknownMsg t) \<Rightarrow> [])"

section \<open>The exam page \<^verbatim>\<open>StudentExam\<close>\<close>

text \<open>
  The fields of \<^verbatim>\<open>studentData\<close> that the page reads; a missing field is the empty
  string, which is what \<^verbatim>\<open>studentData?.name || ''\<close> makes of it.
\<close>

record student =
  sd_id :: string
  sd_name :: string
  sd_subjectCode :: string
  sd_subjectName :: string

text \<open>
  The video element: its dimensions and \<open>picture\<close>, the data URL that the canvas gives
  for its current frame.
\<close>

record video =
  videoWidth :: nat
  videoHeight :: nat
  picture :: string

text \<open>
  The page's state: its React state, its refs, and the state of the hook it uses.
  \<open>analyserRef\<close> holds the level \<^verbatim>\<open>Math.min(Math.round((average / 255) * 100), 100)\<close> of the
  analyser's current data, when there is an analyser.
\<close>

record exam =
  exam_studentData :: "student option"
  exam_examId :: "string option"
  exam_calibratedPitch :: real
  exam_calibratedYaw :: real
  violationCount :: nat
  recentWarnings :: "string list"
  audioLevel :: nat
  tabSwitchCount :: nat
  copyPasteCount :: nat
  windowFocused :: bool
  videoRef :: "video option"
  streamRef :: bool
  analyserRef :: "nat option"
  studentNameRef :: string
  conn :: hook

text \<open>The options that the page passes to the hook at a render.\<close>

definition hook_options :: "exam \<Rightarrow> options" where
  "hook_options st =
     \<lparr>sessionId = js_or (exam_examId st) [],
      examId = js_or (exam_examId st) [],
      studentId = (case exam_studentData st of None \<Rightarrow> [] | Some d \<Rightarrow> sd_id d),
      studentName = (case exam_studentData st of None \<Rightarrow> [] | Some d \<Rightarrow> sd_name d),
      subjectCode = (case exam_studentData st of None \<Rightarrow> [] | Some d \<Rightarrow> sd_subjectCode d),
      subjectName =
        (case exam_studentData st of
           None \<Rightarrow> []
         | Some d \<Rightarrow> if sd_subjectName d \<noteq> [] then sd_subjectName d else sd_subjectCode d),
      calibratedPitch = exam_calibratedPitch st,
      calibratedYaw = exam_calibratedYaw st,
      enabled = (js_or (exam_examId st) [] \<noteq> [] \<and> exam_studentData st \<noteq> None)\<rparr>"

text \<open>
  The page's \<^verbatim>\<open>onViolation\<close>: one more violation counted, its message put in front of
  the recent warnings, of which three are kept, and a toast.
\<close>

definition onViolation :: "violation_data \<Rightarrow> exam \<Rightarrow> exam" where
  "onViolation violation st =
     (let message =
            (if v_message violation \<noteq> [] then v_message violation
             else map (\<lambda>c. if c = CHR ''_'' then CHR '' '' else c) (v_type violation))
      in st\<lparr>violationCount := violationCount st + 1,
            recentWarnings := take 3 (message # recentWarnings st),
            conn := (conn st)\<lparr>toasts := toasts (conn st) @ [ToastError (''Violation: '' @ message)]\<rparr>\<rparr>)"

text \<open>
  \<^verbatim>\<open>handleVisibilityChange\<close> and \<^verbatim>\<open>handleCopyPaste\<close>. \<open>opts\<close> and \<open>wsConnected\<close> are the
  values in the closure of the effect that attached the listeners; \<open>hidden\<close> is
  \<^verbatim>\<open>document.hidden\<close>, \<open>etype\<close> the event's type.
\<close>

definition handleVisibilityChange :: "options \<Rightarrow> bool \<Rightarrow> bool \<Rightarrow> exam \<Rightarrow> js_error + exam" where
  "handleVisibilityChange opts wsConnected hidden st =
     (if hidden
      then (let st1 = st\<lparr>tabSwitchCount := tabSwitchCount st + 1\<rparr>
            in if wsConnected
               then (case sendBrowserActivity opts (conn st1) ''tab_switch''
                            ''Tab switched - student navigated away from exam page'' of
                       Inl e \<Rightarrow> Inl e
                     | Inr h \<Rightarrow> Inr (st1\<lparr>conn := h, windowFocused := \<not> hidden\<rparr>))
               else Inr (st1\<lparr>windowFocused := \<not> hidden\<rparr>))
      else Inr (st\<lparr>windowFocused := \<not> hidden\<rparr>))"

definition handleCopyPaste :: "options \<Rightarrow> bool \<Rightarrow> string \<Rightarrow> exam \<Rightarrow> js_error + exam" where
  "handleCopyPaste opts wsConnected etype st =
     (let eventType = (if etype = ''copy'' then ''copy'' else ''paste'');
          st1 = st\<lparr>copyPasteCount := copyPasteCount st + 1\<rparr>
      in if wsConnected
         then (case sendBrowserActivity opts (conn st1) ''copy_paste''
                      ((if eventType = ''copy'' then ''Copy'' else ''Paste'')
                         @ '' operation attempted'') of
                 Inl e \<Rightarrow> Inl e
               | Inr h \<Rightarrow> Inr (st1\<lparr>conn := h\<rparr>))
         else Inr st1)"

text \<open>
  The events that reach the page. The effect attaches the two listeners only when there
  is an exam id and student data, with the options and the connection flag of the
  current render.
\<close>

datatype exam_event =
    RemoteViolation violation_data
  | VisibilityChange bool
  | CopyPasteEvent string

definition ingest :: "exam_event \<Rightarrow> exam \<Rightarrow> js_error + exam" where
  "ingest ev st =
     (case ev of
        RemoteViolation v \<Rightarrow> Inr (onViolation v st)
      | VisibilityChange hidden \<Rightarrow>
          if js_or (exam_examId st) [] = [] \<or> exam_studentData st = None then Inr st
          else handleVisibilityChange (hook_options st) (isConnected (conn st)) hidden st
      | CopyPasteEvent etype \<Rightarrow>
          if js_or (exam_examId st) [] = [] \<or> exam_studentData st = None then Inr st
          else handleCopyPaste (hook_options st) (isConnected (conn st)) etype st)"

fun ingest_all :: "exam_event list \<Rightarrow> exam \<Rightarrow> js_error + exam" where
  "ingest_all [] st = Inr st"
| "ingest_all (ev # evs) st =
     (case ingest ev st of Inl e \<Rightarrow> Inl e | Inr st' \<Rightarrow> ingest_all evs st')"

text \<open>
  The callback of the interval that \<^verbatim>\<open>startAIMonitoring\<close> sets. \<open>opts\<close> are the options
  in the closure of the \<^verbatim>\<open>sendFrame\<close> and \<^verbatim>\<open>sendAudioLevel\<close> it calls; \<open>has_context\<close>
  is whether the canvas gives a 2d context. An exception of a send is caught by the
  callback's \<^verbatim>\<open>try\<close>.
\<close>

definition monitoring_tick :: "options \<Rightarrow> bool \<Rightarrow> exam \<Rightarrow> exam" where
  "monitoring_tick opts has_context st =
     (case videoRef st of
        None \<Rightarrow> st
      | Some v \<Rightarrow>
          if \<not> streamRef st then st
          else if videoWidth v = 0 \<or> videoHeight v = 0 then st
          else if \<not> has_context then st
          else (let snapshot = picture v;
                    currentAudioLevel = (case analyserRef st of None \<Rightarrow> 0 | Some l \<Rightarrow> l);
                    st1 = st\<lparr>audioLevel := currentAudioLevel\<rparr>
                in case sendFrame opts (conn st1) snapshot (Some currentAudioLevel)
                          (Some (studentNameRef st1)) of
                     Inl e \<Rightarrow> st1
                   | Inr h \<Rightarrow>
                       (case sendAudioLevel opts h currentAudioLevel of
                          Inl e \<Rightarrow> st1\<lparr>conn := h\<rparr>
                        | Inr h' \<Rightarrow> st1\<lparr>conn := h'\<rparr>)))"

section \<open>Report exporter: \<^verbatim>\<open>exportToCSV\<close>\<close>













section \<open>Sample inputs and auxiliary predicates\<close>

text \<open>
  The hook's state between two rounds of \<open>storm\<close>, when the counter is \<open>k\<close>: no timer
  is pending, the socket in \<^verbatim>\<open>wsRef\<close> is connecting and was created with the counter
  \<open>k\<close>, and the socket that the cleanup has closed last was created with the counter 0
  and has not delivered its close event yet.
\<close>

definition storming :: "nat \<Rightarrow> hook \<Rightarrow> bool" where
  "storming k st =
     (reconnectAttempts st = k \<and> timers st = []
      \<and> (case wsRef st of
            None \<Rightarrow> False
          | Some ws \<Rightarrow> seenAttempts ws = k \<and> readyState ws = CONNECTING)
      \<and> detached st \<noteq> []
      \<and> seenAttempts (last (detached st)) = 0
      \<and> readyState (last (detached st)) = CLOSING)"

text \<open>The state after one round of \<open>storm\<close>.\<close>

definition storm_next :: "(string \<Rightarrow> bool) \<Rightarrow> string \<Rightarrow> options \<Rightarrow> hook \<Rightarrow> hook" where
  "storm_next accepts WS_URL opts st =
     step accepts WS_URL opts (TimerFired (nextTimerId st))
       (step accepts WS_URL opts CurrentClosed
          (step accepts WS_URL opts (DetachedClosed (length (detached st) - 1)) st))"

text \<open>The concrete inputs at which the results below are evaluated.\<close>

definition sample_options :: options where
  "sample_options =
     \<lparr>sessionId = ''e1'', examId = ''e1'', studentId = ''s1'', studentName = ''Ada'',
      subjectCode = ''M1'', subjectName = ''Maths'', calibratedPitch = 0,
      calibratedYaw = 0, enabled = True\<rparr>"

definition sample_socket :: "ready_state \<Rightarrow> nat \<Rightarrow> websocket" where
  "sample_socket rs k =
     \<lparr>url = ''ws://h/api/ws/proctoring/e1'', readyState = rs, seenAttempts = k, outbox = []\<rparr>"

definition sample_hook :: "ready_state \<Rightarrow> nat \<Rightarrow> hook" where
  "sample_hook rs k =
     \<lparr>wsRef = Some (sample_socket rs k), detached = [], reconnectTimeoutRef = None,
      timers = [], nextTimerId = 1, isConnected = (rs = OPEN), reconnectAttempts = k,
      toasts = []\<rparr>"

text \<open>
  The hook after the first reconnect and two more rounds of \<open>storm\<close>: it is connecting
  for the third time.
\<close>

definition third_attempt :: hook where
  "third_attempt =
     snd (storm (\<lambda>u. True) ''ws://h'' sample_options 2
            (first_reconnect (\<lambda>u. True) ''ws://h'' sample_options))"

definition sample_violation :: violation_data where
  "sample_violation =
     \<lparr>v_type = ''phone_detected'', v_severity = ''high'', v_message = ''Phone detected'',
      v_confidence = Some 0.9, v_timestamp = ''2025-01-01T00:00:00.000Z'',
      v_snapshot_base64 = None\<rparr>"

definition sample_video :: "nat \<Rightarrow> nat \<Rightarrow> video" where
  "sample_video w h =
     \<lparr>videoWidth = w, videoHeight = h, picture = ''data:image/jpeg;base64,AAAA''\<rparr>"

definition sample_exam :: "video \<Rightarrow> hook \<Rightarrow> exam" where
  "sample_exam v h =
     \<lparr>exam_studentData =
        Some \<lparr>sd_id = ''s1'', sd_name = ''Ada'', sd_subjectCode = ''M1'',
              sd_subjectName = ''Maths''\<rparr>,
      exam_examId = Some ''e1'', exam_calibratedPitch = 0, exam_calibratedYaw = 0,
      violationCount = 0, recentWarnings = [], audioLevel = 0, tabSwitchCount = 0,
      copyPasteCount = 0, windowFocused = True, videoRef = Some v, streamRef = True,
      analyserRef = Some 12, studentNameRef = ''Ada'', conn = h\<rparr>"









text \<open>The kinds of events, for counting them in a list.\<close>

fun is_remote :: "exam_event \<Rightarrow> bool" where
  "is_remote (RemoteViolation v) = True"
| "is_remote (VisibilityChange hidden) = False"
| "is_remote (CopyPasteEvent etype) = False"

fun is_focus_loss :: "exam_event \<Rightarrow> bool" where
  "is_focus_loss (RemoteViolation v) = False"
| "is_focus_loss (VisibilityChange hidden) = hidden"
| "is_focus_loss (CopyPasteEvent etype) = False"

fun is_copy_paste :: "exam_event \<Rightarrow> bool" where
  "is_copy_paste (RemoteViolation v) = False"
| "is_copy_paste (VisibilityChange hidden) = False"
| "is_copy_paste (CopyPasteEvent etype) = True"

text \<open>
  The guard of the effect that attaches the page's listeners: there is an exam id and
  there is student data.
\<close>

definition monitoring :: "exam \<Rightarrow> bool" where
  "monitoring st = (js_or (exam_examId st) [] \<noteq> [] \<and> exam_studentData st \<noteq> None)"

section \<open>Severity classification: results\<close>

text \<open>
  C7. The severity is a total function of the violation type alone: the two types
  \<open>phone\<close> and \<open>multiple_person\<close> are high, \<open>object\<close> and \<open>no_person\<close> are medium,
  \<open>looking_away\<close> and \<open>audio_noise\<close> are low, and every other type is low. Each of the
  presence and object types is therefore ranked strictly above each of the gaze and audio
  types. The function has no argument but the type, so no other state can change its result.
\<close>

theorem determineSeverity_table:
  "determineSeverity ''phone'' = High
   \<and> determineSeverity ''multiple_person'' = High
   \<and> determineSeverity ''object'' = Medium
   \<and> determineSeverity ''no_person'' = Medium
   \<and> determineSeverity ''looking_away'' = Low
   \<and> determineSeverity ''audio_noise'' = Low
   \<and> (t \<notin> {''phone'', ''multiple_person'', ''object'', ''no_person''}
        \<longrightarrow> determineSeverity t = Low)
   \<and> (p \<in> {''phone'', ''multiple_person'', ''object'', ''no_person''}
        \<longrightarrow> g \<in> {''looking_away'', ''audio_noise''}
        \<longrightarrow> severity_rank (determineSeverity g) < severity_rank (determineSeverity p))"
  by (auto simp: determineSeverity_def)

theorem determineSeverity_table_witness:
  "''tab_switch'' \<notin> {''phone'', ''multiple_person'', ''object'', ''no_person''}
   \<and> determineSeverity ''tab_switch'' = Low
   \<and> ''no_person'' \<in> {''phone'', ''multiple_person'', ''object'', ''no_person''}
   \<and> ''audio_noise'' \<in> {''looking_away'', ''audio_noise''}
   \<and> severity_rank (determineSeverity ''audio_noise'')
        < severity_rank (determineSeverity ''no_person'')"
  using determineSeverity_table [of "''tab_switch''" "''no_person''" "''audio_noise''"]
  by simp

section \<open>Streaming client: results\<close>

text \<open>
  C4. In every connection state other than \<open>Open\<close> (no socket, connecting, closing or
  closed), each of the three senders returns normally, and returns the hook's state as it
  was: nothing is transmitted and the connection state is the same, whatever the message.
\<close>

theorem send_not_open_is_noop:
  assumes "connectionState st \<noteq> Open"
  shows "sendFrame opts st frameBase64 lvl overrideName = Inr st
    \<and> sendAudioLevel opts st level = Inr st
    \<and> sendBrowserActivity opts st violationType msg = Inr st"
  using assms
  by (auto simp: connectionState_def sendFrame_def sendAudioLevel_def
      sendBrowserActivity_def split: option.splits ready_state.splits)

theorem send_not_open_is_noop_witness:
  "connectionState (sample_hook CONNECTING 0) \<noteq> Open
   \<and> sendFrame sample_options (sample_hook CONNECTING 0) ''data:image/jpeg;base64,AAAA''
        (Some 12) None
      = Inr (sample_hook CONNECTING 0)
   \<and> connectionState initial_hook \<noteq> Open
   \<and> sendBrowserActivity sample_options initial_hook ''tab_switch'' ''Tab switched''
      = Inr initial_hook
   \<and> sendAudioLevel sample_options (sample_hook OPEN 0) 12
      = Inr ((sample_hook OPEN 0)
               \<lparr>wsRef := Some ((sample_socket OPEN 0)
                  \<lparr>outbox := [AudioMsg 12 ''e1'' ''s1'' ''Ada'' ''M1'' ''Maths'']\<rparr>)\<rparr>)"
  using send_not_open_is_noop
      [of "sample_hook CONNECTING 0" sample_options "''data:image/jpeg;base64,AAAA''"
          "Some 12" None 12 "''tab_switch''" "''Tab switched''"]
    send_not_open_is_noop
      [of initial_hook sample_options "''data:image/jpeg;base64,AAAA''"
          "Some 12" None 12 "''tab_switch''" "''Tab switched''"]
  by (simp add: connectionState_def sample_hook_def sample_socket_def initial_hook_def
      sample_options_def sendAudioLevel_def ws_send_def)

lemma storming_first:
  assumes "enabled opts" and "sessionId opts \<noteq> []"
    and "accepts (WS_URL @ ''/api/ws/proctoring/'' @ sessionId opts)"
  shows "storming 1 (first_reconnect accepts WS_URL opts)"
    and "toasts (first_reconnect accepts WS_URL opts) = []"
  using assms
  by (simp_all add: storming_def first_reconnect_def mounted_hook_def connect_effect_def
      connect_def initial_hook_def step_def handle_def onclose_def maxReconnectAttempts_def
      reconnect_callback_def clearTimeout_def effect_rerun_def disconnect_def ws_close_def
      Let_def)

lemma storm_round:
  assumes "enabled opts" and "sessionId opts \<noteq> []"
    and "accepts (WS_URL @ ''/api/ws/proctoring/'' @ sessionId opts)"
    and "storming k st"
  shows "storm accepts WS_URL opts (Suc n) st
           = (1000 # fst (storm accepts WS_URL opts n (storm_next accepts WS_URL opts st)),
              snd (storm accepts WS_URL opts n (storm_next accepts WS_URL opts st)))"
    and "storming (Suc k) (storm_next accepts WS_URL opts st)"
    and "toasts (storm_next accepts WS_URL opts st) = toasts st @
              (if k < 50 then [] else [ToastError ''Unable to connect to proctoring service.''])"
proof -
  from assms(4) obtain ws where
    w: "wsRef st = Some ws" "seenAttempts ws = k" "readyState ws = CONNECTING"
    by (auto simp: storming_def split: option.splits)
  from assms(4) have d: "detached st \<noteq> []" "seenAttempts (last (detached st)) = 0"
    "readyState (last (detached st)) = CLOSING" "timers st = []" "reconnectAttempts st = k"
    by (auto simp: storming_def)
  from d(1) have n: "length (detached st) - 1 < length (detached st)"
    "detached st ! (length (detached st) - 1) = last (detached st)"
    by (simp_all add: last_conv_nth)
  note defs = storm_next_def storming_def step_def handle_def onclose_def
    maxReconnectAttempts_def reconnect_callback_def clearTimeout_def effect_rerun_def
    disconnect_def ws_close_def connect_effect_def connect_def Let_def
  show "storm accepts WS_URL opts (Suc n) st
           = (1000 # fst (storm accepts WS_URL opts n (storm_next accepts WS_URL opts st)),
              snd (storm accepts WS_URL opts n (storm_next accepts WS_URL opts st)))"
    using assms(1-3) w d n by (cases "k < 50") (simp_all add: defs)
  show "storming (Suc k) (storm_next accepts WS_URL opts st)"
    using assms(1-3) w d n by (cases "k < 50") (simp_all add: defs)
  show "toasts (storm_next accepts WS_URL opts st) = toasts st @
              (if k < 50 then [] else [ToastError ''Unable to connect to proctoring service.''])"
    using assms(1-3) w d n by (cases "k < 50") (simp_all add: defs)
qed

lemma storm_run:
  assumes "enabled opts" and "sessionId opts \<noteq> []"
    and "accepts (WS_URL @ ''/api/ws/proctoring/'' @ sessionId opts)"
  shows "storming k st \<Longrightarrow>
     fst (storm accepts WS_URL opts n st) = replicate n 1000
     \<and> storming (k + n) (snd (storm accepts WS_URL opts n st))
     \<and> toasts (snd (storm accepts WS_URL opts n st))
         = toasts st @ replicate (k + n - max k 50)
             (ToastError ''Unable to connect to proctoring service.'')"
proof (induction n arbitrary: k st)
  case 0
  then show ?case by simp
next
  case (Suc n)
  note r1 = storm_round(1) [where accepts = accepts and WS_URL = WS_URL and n = n,
      OF assms Suc.prems]
  note r = storm_round(2,3) [where accepts = accepts and WS_URL = WS_URL, OF assms Suc.prems]
  note ih = Suc.IH [OF r(1)]
  have e: "(if k < 50 then [] else [ToastError ''Unable to connect to proctoring service.''])
      @ replicate (Suc k + n - max (Suc k) 50)
          (ToastError ''Unable to connect to proctoring service.'')
    = replicate (k + Suc n - max k 50)
        (ToastError ''Unable to connect to proctoring service.'')"
  proof (cases "k < 50")
    case True
    then have "max (Suc k) 50 = max k 50" by simp
    with True show ?thesis by simp
  next
    case False
    then have "k + Suc n - max k 50 = Suc (Suc k + n - max (Suc k) 50)" by simp
    with False show ?thesis by simp
  qed
  show ?case
    using ih r1 r(2) e by simp
qed


text \<open>
  C2. The close handler computes the delay \<open>min (1000 * 2 ^ k) 30000\<close> from the counter
  \<open>k\<close> in its closure, and from \<open>k = 50\<close> on it sets no timer and shows the error toast.
  The hook's runs do not follow that schedule. The timer's callback connects with the
  callback of its own closure, and the effect, which runs again because the counter has
  changed, closes that socket at once; the handler of that socket holds the counter 0 and
  sets a timer of 1000 milliseconds when the close event arrives. So while the service
  stays unreachable, every reconnect after the first comes from a timer of 1000
  milliseconds, and after \<open>n\<close> rounds the counter is \<open>1 + n\<close> with a socket connecting
  again, for every \<open>n\<close>: reconnecting does not stop at 50, and from then on every round
  shows the error toast once more.
\<close>

theorem stale_close_reconnects_every_second:
  assumes "enabled opts" and "sessionId opts \<noteq> []"
    and "accepts (WS_URL @ ''/api/ws/proctoring/'' @ sessionId opts)"
  shows "(k < 50 \<longrightarrow>
            timers (onclose opts k st)
              = timers st @ [\<lparr>timerId = nextTimerId st, delay = min (1000 * 2 ^ k) 30000,
                              timerAttempts = k\<rparr>])
    \<and> (50 \<le> k \<longrightarrow>
            timers (onclose opts k st) = timers st
            \<and> toasts (onclose opts k st)
                = toasts st @ [ToastError ''Unable to connect to proctoring service.''])
    \<and> fst (storm accepts WS_URL opts n (first_reconnect accepts WS_URL opts))
        = replicate n 1000
    \<and> reconnectAttempts (snd (storm accepts WS_URL opts n (first_reconnect accepts WS_URL opts)))
        = 1 + n
    \<and> connectionState (snd (storm accepts WS_URL opts n (first_reconnect accepts WS_URL opts)))
        = Connecting
    \<and> toasts (snd (storm accepts WS_URL opts n (first_reconnect accepts WS_URL opts)))
        = replicate (n - 49) (ToastError ''Unable to connect to proctoring service.'')"
proof -
  have a: "k < 50 \<longrightarrow>
            timers (onclose opts k st)
              = timers st @ [\<lparr>timerId = nextTimerId st, delay = min (1000 * 2 ^ k) 30000,
                              timerAttempts = k\<rparr>]"
    using assms(1) by (simp add: onclose_def maxReconnectAttempts_def Let_def)
  have b: "50 \<le> k \<longrightarrow>
            timers (onclose opts k st) = timers st
            \<and> toasts (onclose opts k st)
                = toasts st @ [ToastError ''Unable to connect to proctoring service.'']"
    by (simp add: onclose_def maxReconnectAttempts_def Let_def)
  note f = storming_first [where accepts = accepts and WS_URL = WS_URL, OF assms]
  note r = storm_run [where accepts = accepts and WS_URL = WS_URL and n = n, OF assms f(1)]
  from r f(2) have t: "toasts (snd (storm accepts WS_URL opts n (first_reconnect accepts WS_URL opts)))
        = replicate (n - 49) (ToastError ''Unable to connect to proctoring service.'')"
    by simp
  from r have c: "fst (storm accepts WS_URL opts n (first_reconnect accepts WS_URL opts))
        = replicate n 1000"
    by simp
  from r have s: "storming (1 + n)
      (snd (storm accepts WS_URL opts n (first_reconnect accepts WS_URL opts)))"
    by simp
  from s have d: "reconnectAttempts
      (snd (storm accepts WS_URL opts n (first_reconnect accepts WS_URL opts))) = 1 + n"
    by (simp add: storming_def)
  from s have e: "connectionState
      (snd (storm accepts WS_URL opts n (first_reconnect accepts WS_URL opts))) = Connecting"
    by (auto simp: storming_def connectionState_def split: option.splits)
  from a b c d e t show ?thesis by blast
qed

theorem stale_close_reconnects_every_second_witness:
  "enabled sample_options \<and> sessionId sample_options \<noteq> []
   \<and> fst (storm (\<lambda>u. True) ''ws://h'' sample_options 4
            (first_reconnect (\<lambda>u. True) ''ws://h'' sample_options))
       = [1000, 1000, 1000, 1000]
   \<and> reconnectAttempts (snd (storm (\<lambda>u. True) ''ws://h'' sample_options 60
            (first_reconnect (\<lambda>u. True) ''ws://h'' sample_options))) = 61
   \<and> connectionState (snd (storm (\<lambda>u. True) ''ws://h'' sample_options 60
            (first_reconnect (\<lambda>u. True) ''ws://h'' sample_options))) = Connecting
   \<and> toasts (snd (storm (\<lambda>u. True) ''ws://h'' sample_options 60
            (first_reconnect (\<lambda>u. True) ''ws://h'' sample_options)))
       = replicate 11 (ToastError ''Unable to connect to proctoring service.'')
   \<and> timers (onclose sample_options 1 initial_hook)
       = [\<lparr>timerId = 1, delay = 2000, timerAttempts = 1\<rparr>]
   \<and> timers (onclose sample_options 50 initial_hook) = []
   \<and> toasts (onclose sample_options 50 initial_hook)
       = [ToastError ''Unable to connect to proctoring service.'']"
proof -
  have r: "replicate 4 (1000::nat) = [1000, 1000, 1000, 1000]"
    by code_simp
  show ?thesis
    using stale_close_reconnects_every_second
        [of sample_options "\<lambda>u. True" "''ws://h''" 1 initial_hook 4]
      stale_close_reconnects_every_second
        [of sample_options "\<lambda>u. True" "''ws://h''" 50 initial_hook 60]
    by (simp add: sample_options_def initial_hook_def r)
qed

lemma find_last:
  "\<forall>x \<in> set xs. \<not> P x \<Longrightarrow> P y \<Longrightarrow> find P (xs @ [y]) = Some y"
  by (induction xs) simp_all

lemma third_attempt_state:
  "third_attempt
   = \<lparr>wsRef = Some (sample_socket CONNECTING 3),
       detached = [sample_socket CLOSED 0, sample_socket CLOSED 0, sample_socket CLOSED 1,
                   sample_socket CLOSED 0, sample_socket CLOSED 2, sample_socket CLOSING 0],
       reconnectTimeoutRef = Some 5, timers = [], nextTimerId = 6, isConnected = False,
       reconnectAttempts = 3, toasts = []\<rparr>"
  by (simp add: third_attempt_def first_reconnect_def mounted_hook_def initial_hook_def
      sample_options_def sample_socket_def step_def handle_def onopen_def onclose_def
      maxReconnectAttempts_def reconnect_callback_def clearTimeout_def effect_rerun_def
      disconnect_def ws_close_def connect_effect_def connect_def Let_def numeral_2_eq_2)

text \<open>
  C10. The open handler sets the counter to 0, but the backoff does not start again from
  there when the counter was \<open>k > 0\<close>. The open changes the counter, so the effect runs
  again: its cleanup closes the socket that has just opened, and the effect connects anew
  with the counter 0. The close event of the closed socket comes next, and the handler of
  that socket holds the counter \<open>k\<close> of before the open: it sets a timer of
  \<open>min (1000 * 2 ^ k) 30000\<close> milliseconds for the attempt \<open>k\<close>, not one of 1000
  milliseconds for the attempt 0. When that timer fires, the counter becomes 1 and the
  connection is replaced once more.
\<close>

theorem open_does_not_restart_backoff:
  assumes "enabled opts" and "sessionId opts \<noteq> []"
    and "accepts (WS_URL @ ''/api/ws/proctoring/'' @ sessionId opts)"
    and "wsRef st = Some ws" and "readyState ws = CONNECTING"
    and "seenAttempts ws = reconnectAttempts st"
    and "0 < reconnectAttempts st" and "reconnectAttempts st < 50"
    and "\<forall>t \<in> set (timers st). timerId t < nextTimerId st"
  shows "reconnectAttempts (onopen st) = 0
    \<and> reconnectAttempts (step accepts WS_URL opts CurrentOpened st) = 0
    \<and> detached (step accepts WS_URL opts CurrentOpened st)
        = detached st @ [ws\<lparr>readyState := CLOSING\<rparr>]
    \<and> wsRef (step accepts WS_URL opts CurrentOpened st)
        = Some \<lparr>url = WS_URL @ ''/api/ws/proctoring/'' @ sessionId opts,
                readyState = CONNECTING, seenAttempts = 0, outbox = []\<rparr>
    \<and> reconnectTimeoutRef
         (step accepts WS_URL opts (DetachedClosed (length (detached st)))
            (step accepts WS_URL opts CurrentOpened st))
        = Some (nextTimerId st)
    \<and> last (timers
         (step accepts WS_URL opts (DetachedClosed (length (detached st)))
            (step accepts WS_URL opts CurrentOpened st)))
        = \<lparr>timerId = nextTimerId st, delay = min (1000 * 2 ^ reconnectAttempts st) 30000,
           timerAttempts = reconnectAttempts st\<rparr>
    \<and> reconnectAttempts
         (step accepts WS_URL opts (TimerFired (nextTimerId st))
            (step accepts WS_URL opts (DetachedClosed (length (detached st)))
               (step accepts WS_URL opts CurrentOpened st))) = 1
    \<and> connectionState
         (step accepts WS_URL opts (TimerFired (nextTimerId st))
            (step accepts WS_URL opts (DetachedClosed (length (detached st)))
               (step accepts WS_URL opts CurrentOpened st))) = Connecting"
proof -
  let ?k = "reconnectAttempts st"
  let ?u = "WS_URL @ ''/api/ws/proctoring/'' @ sessionId opts"
  let ?ts = "case reconnectTimeoutRef st of None \<Rightarrow> timers st
             | Some h \<Rightarrow> clearTimeout h (timers st)"
  let ?t = "\<lparr>timerId = nextTimerId st, delay = min (1000 * 2 ^ ?k) 30000, timerAttempts = ?k\<rparr>"
  define s1 where "s1 = step accepts WS_URL opts CurrentOpened st"
  define s2 where "s2 = step accepts WS_URL opts (DetachedClosed (length (detached st))) s1"
  define s3 where "s3 = step accepts WS_URL opts (TimerFired (nextTimerId st)) s2"
  have h: "handle accepts WS_URL opts CurrentOpened st
      = onopen (st\<lparr>wsRef := Some (ws\<lparr>readyState := OPEN\<rparr>)\<rparr>)"
    using assms(4,5) by (simp add: handle_def)
  have s1: "s1 = st\<lparr>wsRef := Some \<lparr>url = ?u, readyState = CONNECTING, seenAttempts = 0,
                                      outbox = []\<rparr>,
                     detached := detached st @ [ws\<lparr>readyState := CLOSING\<rparr>],
                     timers := ?ts, isConnected := False, reconnectAttempts := 0,
                     toasts := toasts st @ [ToastSuccess ''Real-time monitoring active'']\<rparr>"
    using assms(1-3,7) unfolding s1_def
    by (cases "reconnectTimeoutRef st")
      (simp_all add: step_def h onopen_def effect_rerun_def disconnect_def connect_effect_def
        connect_def ws_close_def Let_def)
  have s2: "s2 = s1\<lparr>detached := detached st @ [ws\<lparr>readyState := CLOSED\<rparr>],
                      timers := ?ts @ [?t], reconnectTimeoutRef := Some (nextTimerId st),
                      nextTimerId := nextTimerId st + 1\<rparr>"
    using assms(1,6,8) unfolding s2_def
    by (simp add: s1 step_def handle_def onclose_def maxReconnectAttempts_def Let_def nth_append)
  have old: "\<forall>t \<in> set ?ts. \<not> timerId t = nextTimerId st"
    using assms(9) by (auto simp: clearTimeout_def split: option.splits)
  then have f: "find (\<lambda>t. timerId t = nextTimerId st) (?ts @ [?t]) = Some ?t"
    by (intro find_last) simp_all
  have c: "clearTimeout (nextTimerId st) (?ts @ [?t]) = ?ts"
    using old by (simp add: clearTimeout_def filter_id_conv)
  have ts2: "timers s2 = ?ts @ [?t]"
    by (simp add: s2)
  have h3: "handle accepts WS_URL opts (TimerFired (nextTimerId st)) s2
      = reconnect_callback accepts WS_URL opts ?k (s2\<lparr>timers := ?ts\<rparr>)"
    by (simp add: handle_def ts2 f c)
  have r3: "reconnectAttempts s3 = 1 \<and> connectionState s3 = Connecting"
    using assms(1-3)
    unfolding s3_def step_def h3
    by (simp add: s2 s1 reconnect_callback_def effect_rerun_def disconnect_def
        connect_effect_def connect_def ws_close_def connectionState_def Let_def)
  have a: "reconnectAttempts (onopen st) = 0"
    by (simp add: onopen_def)
  have l: "last (timers s2) = ?t" "reconnectTimeoutRef s2 = Some (nextTimerId st)"
    by (simp_all add: s2)
  have d: "reconnectAttempts s1 = 0" "detached s1 = detached st @ [ws\<lparr>readyState := CLOSING\<rparr>]"
     "wsRef s1 = Some \<lparr>url = ?u, readyState = CONNECTING, seenAttempts = 0, outbox = []\<rparr>"
    by (simp_all add: s1)
  from a d l r3 show ?thesis
    unfolding s3_def s2_def s1_def by simp
qed

theorem open_does_not_restart_backoff_witness:
  "enabled sample_options \<and> sessionId sample_options \<noteq> []
   \<and> wsRef third_attempt = Some (sample_socket CONNECTING 3)
   \<and> readyState (sample_socket CONNECTING 3) = CONNECTING
   \<and> seenAttempts (sample_socket CONNECTING 3) = reconnectAttempts third_attempt
   \<and> reconnectAttempts third_attempt = 3
   \<and> timers third_attempt = [] \<and> length (detached third_attempt) = 6
   \<and> reconnectAttempts (step (\<lambda>u. True) ''ws://h'' sample_options CurrentOpened third_attempt) = 0
   \<and> last (timers (step (\<lambda>u. True) ''ws://h'' sample_options (DetachedClosed 6)
        (step (\<lambda>u. True) ''ws://h'' sample_options CurrentOpened third_attempt)))
       = \<lparr>timerId = 6, delay = 8000, timerAttempts = 3\<rparr>
   \<and> reconnectAttempts (step (\<lambda>u. True) ''ws://h'' sample_options (TimerFired 6)
       (step (\<lambda>u. True) ''ws://h'' sample_options (DetachedClosed 6)
        (step (\<lambda>u. True) ''ws://h'' sample_options CurrentOpened third_attempt))) = 1"
proof -
  have o: "enabled sample_options" "sessionId sample_options \<noteq> []"
    "(\<lambda>u. True) (''ws://h'' @ ''/api/ws/proctoring/'' @ sessionId sample_options)"
    by (simp_all add: sample_options_def)
  have p: "wsRef third_attempt = Some (sample_socket CONNECTING 3)"
    "readyState (sample_socket CONNECTING 3) = CONNECTING"
    "seenAttempts (sample_socket CONNECTING 3) = reconnectAttempts third_attempt"
    "0 < reconnectAttempts third_attempt" "reconnectAttempts third_attempt < 50"
    "\<forall>t \<in> set (timers third_attempt). timerId t < nextTimerId third_attempt"
    by (simp_all add: third_attempt_state sample_socket_def)
  have n: "length (detached third_attempt) = 6" "nextTimerId third_attempt = 6"
    "reconnectAttempts third_attempt = 3" "timers third_attempt = []"
    by (simp_all add: third_attempt_state)
  have d: "min (1000 * 2 ^ 3) 30000 = (8000::nat)"
    by simp
  note r = open_does_not_restart_backoff [where accepts = "\<lambda>u. True" and WS_URL = "''ws://h''", OF o p]
  from r o(1,2) p(1-3) n(1,3,4) show ?thesis
    unfolding n d by blast
qed


text \<open>
  C5, as amended. When the hook is enabled and the session id is not empty, \<^verbatim>\<open>connect\<close>
  opens its socket at the configured endpoint followed by \<^verbatim>\<open>/api/ws/proctoring/\<close> and
  the session id; when the hook is disabled or the session id is empty it opens none and
  leaves the hook as it was.
\<close>

theorem connect_path:
  assumes "enabled opts" and "sessionId opts \<noteq> []"
    and "accepts (WS_URL @ ''/api/ws/proctoring/'' @ sessionId opts)"
  shows "wsRef (connect accepts WS_URL opts k st)
      = Some \<lparr>url = WS_URL @ ''/api/ws/proctoring/'' @ sessionId opts,
              readyState = CONNECTING, seenAttempts = k, outbox = []\<rparr>
    \<and> (\<not> enabled opts' \<or> sessionId opts' = [] \<longrightarrow> connect accepts WS_URL opts' k st = st)"
  using assms by (simp add: connect_def)

theorem connect_path_witness:
  "enabled sample_options \<and> sessionId sample_options \<noteq> []
   \<and> getWebSocketURL None None = ''ws://localhost:8001''
   \<and> getWebSocketURL None (Some ''https://proctor.example'') = ''wss://proctor.example''
   \<and> wsRef (connect (\<lambda>u. True) (getWebSocketURL None None) sample_options 0 initial_hook)
      = Some \<lparr>url = ''ws://localhost:8001/api/ws/proctoring/e1'',
              readyState = CONNECTING, seenAttempts = 0, outbox = []\<rparr>
   \<and> sessionId (sample_options\<lparr>sessionId := []\<rparr>) = []
   \<and> connect (\<lambda>u. True) (getWebSocketURL None None) (sample_options\<lparr>sessionId := []\<rparr>) 0
        initial_hook
      = initial_hook"
  using connect_path [of sample_options "\<lambda>u. True" "getWebSocketURL None None" 0 initial_hook
      "sample_options\<lparr>sessionId := []\<rparr>"]
  by (simp add: sample_options_def getWebSocketURL_def js_or_def)

text \<open>
  The path is not \<^verbatim>\<open>/ws/proctoring/{sessionId}\<close> under the endpoint: for the endpoint
  \<^verbatim>\<open>ws://h\<close> and the session \<^verbatim>\<open>e1\<close> the socket's URL is \<^verbatim>\<open>ws://h/api/ws/proctoring/e1\<close>;
  and for the empty session id no socket is opened.
\<close>

theorem connect_path_counterexample:
  "wsRef (connect (\<lambda>u. True) ''ws://h'' sample_options 0 initial_hook)
      = Some \<lparr>url = ''ws://h/api/ws/proctoring/e1'',
              readyState = CONNECTING, seenAttempts = 0, outbox = []\<rparr>
   \<and> ''ws://h/api/ws/proctoring/e1'' \<noteq> ''ws://h'' @ ''/ws/proctoring/'' @ sessionId sample_options
   \<and> wsRef (connect (\<lambda>u. True) ''ws://h'' (sample_options\<lparr>sessionId := []\<rparr>) 0 initial_hook) = None"
  by (simp add: connect_def sample_options_def initial_hook_def)

lemma restamp_enumerate:
  "map (\<lambda>(i, violation). violation\<lparr>v_timestamp := clock i, v_snapshot_base64 := s\<rparr>)
     (enumerate n (map (\<lambda>v. v\<lparr>v_timestamp := stamp v\<rparr>) vs))
   = map (\<lambda>(i, violation). violation\<lparr>v_timestamp := clock i, v_snapshot_base64 := s\<rparr>)
       (enumerate n vs)"
  by (induction vs arbitrary: n) simp_all

text \<open>
  C9. Of a detection result with violations, the handler receives one violation per
  listed violation, in order, each with the client's clock reading at its callback as
  timestamp (and the result's snapshot); what it receives does not depend on the
  timestamps that the service has put in the violations. A \<^verbatim>\<open>violation\<close> message is
  handed over as it is.
\<close>

theorem detection_result_timestamps:
  "(violations result = Some vs \<longrightarrow>
      length (onmessage clock (Some (DetectionResultMsg (Some result)))) = length vs
      \<and> (\<forall>i < length vs.
            onmessage clock (Some (DetectionResultMsg (Some result))) ! i
              = (vs ! i)\<lparr>v_timestamp := clock i, v_snapshot_base64 := snapshot_base64 result\<rparr>))
   \<and> onmessage clock
        (Some (DetectionResultMsg
           (Some (result\<lparr>violations := Some (map (\<lambda>v. v\<lparr>v_timestamp := stamp v\<rparr>) vs)\<rparr>))))
      = onmessage clock (Some (DetectionResultMsg (Some (result\<lparr>violations := Some vs\<rparr>))))
   \<and> onmessage clock (Some (ViolationMsg v)) = [v]"
  by (auto simp: onmessage_def nth_enumerate_eq restamp_enumerate)


theorem detection_result_timestamps_witness:
  "violations \<lparr>violations = Some [sample_violation], snapshot_base64 = Some ''AAAA''\<rparr>
     = Some [sample_violation]
   \<and> onmessage (\<lambda>i. ''2026-11-03T10:00:00.000Z'')
        (Some (DetectionResultMsg
           (Some \<lparr>violations = Some [sample_violation], snapshot_base64 = Some ''AAAA''\<rparr>)))
      = [sample_violation\<lparr>v_timestamp := ''2026-11-03T10:00:00.000Z'',
                          v_snapshot_base64 := Some ''AAAA''\<rparr>]
   \<and> v_timestamp sample_violation = ''2025-01-01T00:00:00.000Z''"
  using detection_result_timestamps
    [of "\<lparr>violations = Some [sample_violation], snapshot_base64 = Some ''AAAA''\<rparr>"
        "[sample_violation]" "\<lambda>i. ''2026-11-03T10:00:00.000Z''" "\<lambda>v. []" sample_violation]
  by (simp add: sample_violation_def onmessage_def)

section \<open>The exam page: results\<close>

text \<open>
  C6. At a tick at which the video reports a width or a height of zero, the callback
  returns with the page's state as it was: no frame is captured, and no frame or audio
  message is sent, also on an open socket.
\<close>

theorem zero_dimension_tick_skips:
  assumes "videoRef st = Some v" and "videoWidth v = 0 \<or> videoHeight v = 0"
  shows "monitoring_tick opts has_context st = st"
  using assms by (auto simp: monitoring_tick_def)

theorem zero_dimension_tick_skips_witness:
  "videoRef (sample_exam (sample_video 0 480) (sample_hook OPEN 0)) = Some (sample_video 0 480)
   \<and> videoWidth (sample_video 0 480) = 0
   \<and> connectionState (sample_hook OPEN 0) = Open
   \<and> monitoring_tick sample_options True (sample_exam (sample_video 0 480) (sample_hook OPEN 0))
       = sample_exam (sample_video 0 480) (sample_hook OPEN 0)
   \<and> transmitted (conn (monitoring_tick sample_options True
         (sample_exam (sample_video 0 480) (sample_hook OPEN 0)))) = []
   \<and> transmitted (conn (monitoring_tick sample_options True
         (sample_exam (sample_video 640 480) (sample_hook OPEN 0))))
       = [FrameMsg ''data:image/jpeg;base64,AAAA'' 0 0 ''e1'' ''s1'' ''Ada'' ''M1'' ''Maths'' (Some 12),
          AudioMsg 12 ''e1'' ''s1'' ''Ada'' ''M1'' ''Maths'']"
  using zero_dimension_tick_skips [of "sample_exam (sample_video 0 480) (sample_hook OPEN 0)"
      "sample_video 0 480" sample_options True]
  by (simp add: sample_exam_def sample_video_def sample_hook_def sample_socket_def
      sample_options_def connectionState_def transmitted_def monitoring_tick_def
      sendFrame_def sendAudioLevel_def ws_send_def js_or_def)

lemma sendBrowserActivity_result:
  "sendBrowserActivity opts h vt msg =
     Inr (if connectionState h = Open
          then h\<lparr>wsRef := Some ((the (wsRef h))\<lparr>outbox := outbox (the (wsRef h)) @
                 [BrowserActivityMsg vt msg (examId opts) (studentId opts) (studentName opts)
                    (subjectCode opts) (subjectName opts)]\<rparr>)\<rparr>
          else h)"
  by (auto simp: sendBrowserActivity_def connectionState_def ws_send_def
      split: option.splits ready_state.splits)

lemma sendBrowserActivity_transmitted:
  "\<exists>h'. sendBrowserActivity opts h vt msg = Inr h'
     \<and> transmitted h' =
         (if connectionState h = Open
          then transmitted h @ [BrowserActivityMsg vt msg (examId opts) (studentId opts)
                 (studentName opts) (subjectCode opts) (subjectName opts)]
          else transmitted h)
     \<and> isConnected h' = isConnected h \<and> toasts h' = toasts h
     \<and> connectionState h' = connectionState h"
  by (auto simp: sendBrowserActivity_result transmitted_def connectionState_def
      split: option.splits ready_state.splits)

lemma ingest_step:
  assumes "monitoring st"
  shows "\<exists>st'. ingest ev st = Inr st'
     \<and> monitoring st'
     \<and> violationCount st' = violationCount st + (if is_remote ev then 1 else 0)
     \<and> tabSwitchCount st' = tabSwitchCount st + (if is_focus_loss ev then 1 else 0)
     \<and> copyPasteCount st' = copyPasteCount st + (if is_copy_paste ev then 1 else 0)
     \<and> (length (recentWarnings st) \<le> 3 \<longrightarrow> length (recentWarnings st') \<le> 3)
     \<and> (\<not> is_remote ev \<longrightarrow> recentWarnings st' = recentWarnings st)"
proof (cases ev)
  case (RemoteViolation v)
  then show ?thesis
    using assms by (simp add: ingest_def onViolation_def monitoring_def Let_def)
next
  case (VisibilityChange hidden)
  obtain h' where h: "sendBrowserActivity (hook_options st)
      (conn (st\<lparr>tabSwitchCount := tabSwitchCount st + 1\<rparr>)) ''tab_switch''
      ''Tab switched - student navigated away from exam page'' = Inr h'"
    using sendBrowserActivity_transmitted by blast
  show ?thesis
    using assms VisibilityChange h
    by (simp add: ingest_def handleVisibilityChange_def monitoring_def Let_def)
next
  case (CopyPasteEvent etype)
  obtain h' where h: "sendBrowserActivity (hook_options st)
      (conn (st\<lparr>copyPasteCount := copyPasteCount st + 1\<rparr>)) ''copy_paste''
      ((if (if etype = ''copy'' then ''copy'' else ''paste'') = ''copy'' then ''Copy'' else ''Paste'')
         @ '' operation attempted'') = Inr h'"
    using sendBrowserActivity_transmitted by blast
  show ?thesis
    using assms CopyPasteEvent h
    by (simp add: ingest_def handleCopyPaste_def monitoring_def Let_def)
qed

lemma ingest_all_counts:
  "monitoring st \<Longrightarrow>
   \<exists>st'. ingest_all evs st = Inr st'
     \<and> violationCount st' = violationCount st + length (filter is_remote evs)
     \<and> tabSwitchCount st' = tabSwitchCount st + length (filter is_focus_loss evs)
     \<and> copyPasteCount st' = copyPasteCount st + length (filter is_copy_paste evs)
     \<and> (length (recentWarnings st) \<le> 3 \<longrightarrow> length (recentWarnings st') \<le> 3)
     \<and> (filter is_remote evs = [] \<longrightarrow> recentWarnings st' = recentWarnings st)"
proof (induction evs arbitrary: st)
  case Nil
  then show ?case by simp
next
  case (Cons ev evs)
  from ingest_step [OF Cons.prems, of ev] obtain st1 where
    s: "ingest ev st = Inr st1" "monitoring st1"
      "violationCount st1 = violationCount st + (if is_remote ev then 1 else 0)"
      "tabSwitchCount st1 = tabSwitchCount st + (if is_focus_loss ev then 1 else 0)"
      "copyPasteCount st1 = copyPasteCount st + (if is_copy_paste ev then 1 else 0)"
      "length (recentWarnings st) \<le> 3 \<longrightarrow> length (recentWarnings st1) \<le> 3"
      "\<not> is_remote ev \<longrightarrow> recentWarnings st1 = recentWarnings st"
    by blast
  from Cons.IH [OF s(2)] obtain st' where
    t: "ingest_all evs st1 = Inr st'"
      "violationCount st' = violationCount st1 + length (filter is_remote evs)"
      "tabSwitchCount st' = tabSwitchCount st1 + length (filter is_focus_loss evs)"
      "copyPasteCount st' = copyPasteCount st1 + length (filter is_copy_paste evs)"
      "length (recentWarnings st1) \<le> 3 \<longrightarrow> length (recentWarnings st') \<le> 3"
      "filter is_remote evs = [] \<longrightarrow> recentWarnings st' = recentWarnings st1"
    by blast
  show ?case
    using s t by (cases "is_remote ev") simp_all
qed


text \<open>
  C3, as amended. While the page is monitoring, every loss of focus adds one to the
  tab-switch counter, whatever the connection state. A \<^verbatim>\<open>tab_switch\<close> event is sent to
  the backend only when the hook reports a connection and its socket is open; otherwise
  nothing is recorded for it. After two losses of focus the counter has grown by two.
\<close>

theorem focus_loss_counts:
  assumes "monitoring st"
  shows "(\<exists>st'. ingest (VisibilityChange True) st = Inr st'
            \<and> tabSwitchCount st' = tabSwitchCount st + 1
            \<and> transmitted (conn st') =
                (if isConnected (conn st) \<and> connectionState (conn st) = Open
                 then transmitted (conn st) @
                        [BrowserActivityMsg ''tab_switch''
                           ''Tab switched - student navigated away from exam page''
                           (examId (hook_options st)) (studentId (hook_options st))
                           (studentName (hook_options st)) (subjectCode (hook_options st))
                           (subjectName (hook_options st))]
                 else transmitted (conn st))
            \<and> violationCount st' = violationCount st
            \<and> recentWarnings st' = recentWarnings st)
    \<and> (\<exists>st''. ingest_all [VisibilityChange True, VisibilityChange True] st = Inr st''
            \<and> tabSwitchCount st'' = tabSwitchCount st + 2)"
proof -
  obtain h' where h: "sendBrowserActivity (hook_options st)
      (conn (st\<lparr>tabSwitchCount := tabSwitchCount st + 1\<rparr>)) ''tab_switch''
      ''Tab switched - student navigated away from exam page'' = Inr h'"
    "transmitted h' =
       (if connectionState (conn st) = Open
        then transmitted (conn st) @
               [BrowserActivityMsg ''tab_switch''
                  ''Tab switched - student navigated away from exam page''
                  (examId (hook_options st)) (studentId (hook_options st))
                  (studentName (hook_options st)) (subjectCode (hook_options st))
                  (subjectName (hook_options st))]
        else transmitted (conn st))"
    using sendBrowserActivity_transmitted
      [of "hook_options st" "conn (st\<lparr>tabSwitchCount := tabSwitchCount st + 1\<rparr>)"
          "''tab_switch''" "''Tab switched - student navigated away from exam page''"]
    by auto
  have one: "\<exists>st'. ingest (VisibilityChange True) st = Inr st'
            \<and> tabSwitchCount st' = tabSwitchCount st + 1
            \<and> transmitted (conn st') =
                (if isConnected (conn st) \<and> connectionState (conn st) = Open
                 then transmitted (conn st) @
                        [BrowserActivityMsg ''tab_switch''
                           ''Tab switched - student navigated away from exam page''
                           (examId (hook_options st)) (studentId (hook_options st))
                           (studentName (hook_options st)) (subjectCode (hook_options st))
                           (subjectName (hook_options st))]
                 else transmitted (conn st))
            \<and> violationCount st' = violationCount st
            \<and> recentWarnings st' = recentWarnings st"
    using assms h
    by (simp add: ingest_def handleVisibilityChange_def monitoring_def Let_def)
  from ingest_all_counts [OF assms, of "[VisibilityChange True, VisibilityChange True]"]
  have two: "\<exists>st''. ingest_all [VisibilityChange True, VisibilityChange True] st = Inr st''
            \<and> tabSwitchCount st'' = tabSwitchCount st + 2"
    by auto
  from one two show ?thesis by blast
qed

theorem focus_loss_counts_witness:
  "monitoring (sample_exam (sample_video 640 480) (sample_hook OPEN 0))
   \<and> ingest_all [VisibilityChange True, VisibilityChange True]
        (sample_exam (sample_video 640 480) (sample_hook OPEN 0))
      = Inr ((sample_exam (sample_video 640 480) (sample_hook OPEN 0))
               \<lparr>tabSwitchCount := 2, windowFocused := False,
                conn := (sample_hook OPEN 0)
                  \<lparr>wsRef := Some ((sample_socket OPEN 0)
                     \<lparr>outbox :=
                        [BrowserActivityMsg ''tab_switch''
                           ''Tab switched - student navigated away from exam page''
                           ''e1'' ''s1'' ''Ada'' ''M1'' ''Maths'',
                         BrowserActivityMsg ''tab_switch''
                           ''Tab switched - student navigated away from exam page''
                           ''e1'' ''s1'' ''Ada'' ''M1'' ''Maths'']\<rparr>)\<rparr>\<rparr>)"
  using focus_loss_counts [of "sample_exam (sample_video 640 480) (sample_hook OPEN 0)"]
  by (simp add: monitoring_def sample_exam_def sample_video_def sample_hook_def
      sample_socket_def ingest_def handleVisibilityChange_def hook_options_def
      sendBrowserActivity_def ws_send_def js_or_def Let_def)

text \<open>
  Without a connection, two losses of focus leave the counter at 2 with no \<^verbatim>\<open>tab_switch\<close>
  event anywhere: nothing is transmitted and the page's warnings and violation count are
  as before.
\<close>

theorem focus_loss_counterexample:
  "ingest_all [VisibilityChange True, VisibilityChange True]
     (sample_exam (sample_video 640 480) initial_hook)
   = Inr ((sample_exam (sample_video 640 480) initial_hook)
            \<lparr>tabSwitchCount := 2, windowFocused := False\<rparr>)
   \<and> connectionState (conn (sample_exam (sample_video 640 480) initial_hook)) = Disconnected
   \<and> transmitted (conn (sample_exam (sample_video 640 480) initial_hook)) = []
   \<and> recentWarnings (sample_exam (sample_video 640 480) initial_hook) = []
   \<and> violationCount (sample_exam (sample_video 640 480) initial_hook) = 0"
  by (simp add: sample_exam_def sample_video_def initial_hook_def ingest_def
      handleVisibilityChange_def hook_options_def js_or_def Let_def connectionState_def
      transmitted_def)





section \<open>Report exporter: results\<close>






















end
